theory Spec2Isabelle
  imports Main
begin

section \<open>JavaScript values and strings\<close>

text \<open>
  A JavaScript string is a sequence of UTF-16 code units. A code unit is modelled as a
  natural number (every real code unit is below 65536; no arithmetic is done on them),
  and a literal of the source is written \<open>ustr ''...''\<close>.
\<close>

type_synonym jsstring = "nat list"

definition ustr :: "string \<Rightarrow> jsstring" where
  "ustr s = map of_char s"

text \<open>
  The values that reach the code from a decoded JSON body or from a property that may be
  missing: \<open>undefined\<close>, \<open>null\<close>, booleans, numbers and strings.
\<close>

datatype jsv = JUndefined | JNull | JBool bool | JNum int | JStr jsstring

text \<open>Truthiness, as \<open>if (x)\<close> and \<open>x || y\<close> read it.\<close>

fun truthy :: "jsv \<Rightarrow> bool" where
  "truthy JUndefined = False"
| "truthy JNull = False"
| "truthy (JBool b) = b"
| "truthy (JNum n) = (n \<noteq> 0)"
| "truthy (JStr s) = (s \<noteq> [])"

text \<open>
  \<open>String.prototype.trim\<close> removes the code units of ECMAScript's WhiteSpace and
  LineTerminator productions from both ends.
\<close>

definition is_ws :: "nat \<Rightarrow> bool" where
  "is_ws c \<longleftrightarrow>
     c \<in> {0x09, 0x0A, 0x0B, 0x0C, 0x0D, 0x20, 0xA0, 0x1680, 0x2028, 0x2029, 0x202F,
          0x205F, 0x3000, 0xFEFF}
     \<or> (0x2000 \<le> c \<and> c \<le> 0x200A)"

definition trim :: "jsstring \<Rightarrow> jsstring" where
  "trim s = rev (dropWhile is_ws (rev (dropWhile is_ws s)))"

text \<open>\<open>s.startsWith(p)\<close>.\<close>

definition startsWith :: "jsstring \<Rightarrow> jsstring \<Rightarrow> bool" where
  "startsWith s p \<longleftrightarrow> take (length p) s = p"

text \<open>\<open>s.includes(p)\<close>: \<open>p\<close> occurs in \<open>s\<close> as a contiguous run.\<close>

fun includes_str :: "jsstring \<Rightarrow> jsstring \<Rightarrow> bool" where
  "includes_str [] p = (p = [])"
| "includes_str (c # s) p = (startsWith (c # s) p \<or> includes_str s p)"

text \<open>
  \<open>toLowerCase\<close> on the code units \<open>A\<close> to \<open>Z\<close>. The block list it is matched
  against holds only ASCII letters, digits and dots, and the host name the platform's URL
  class returns for an http(s) URL is ASCII.
\<close>

definition toLowerCase :: "jsstring \<Rightarrow> jsstring" where
  "toLowerCase s = map (\<lambda>c. if 65 \<le> c \<and> c \<le> 90 then c + 32 else c) s"

section \<open>The platform's URL class\<close>

text \<open>
  \<open>new URL(s)\<close> and \<open>new URL(rel, base)\<close> belong to the runtime, not to the
  repository. They are parameters of the model: \<open>parseURL\<close> returns the parsed object,
  or \<open>None\<close> where the constructor throws; \<open>resolveURL rel base\<close> returns the
  \<open>href\<close> of \<open>new URL(rel, base)\<close>, or \<open>None\<close> where it throws.
  \<open>development\<close> is \<open>process.env.NODE_ENV === 'development'\<close>, and
  \<open>null_deref_message\<close> is the wording of the engine's TypeError for a property read
  on \<open>null\<close> or \<open>undefined\<close>.
\<close>

record urlobj =
  href :: jsstring
  protocol :: jsstring
  hostname :: jsstring

record platform =
  parseURL :: "jsstring \<Rightarrow> urlobj option"
  resolveURL :: "jsstring \<Rightarrow> jsstring \<Rightarrow> jsstring option"
  development :: bool
  null_deref_message :: jsstring

section \<open>Configuration\<close>

definition maxLinksPerRequest :: nat where "maxLinksPerRequest = 50"
definition timeoutMs :: int where "timeoutMs = 15000"
definition maxConcurrency :: nat where "maxConcurrency = 8"

definition BLOCKED_HOSTS :: "jsstring list" where
  "BLOCKED_HOSTS = map ustr [''localhost'', ''127.0.0.1'', ''0.0.0.0'', ''10.'', ''192.168.'', ''172.'']"

definition ALLOWED_PROTOCOLS :: "jsstring list" where
  "ALLOWED_PROTOCOLS = map ustr [''http:'', ''https:'']"

section \<open>sanitizeUrl and validateUrl\<close>

definition sanitizeUrl :: "platform \<Rightarrow> jsv \<Rightarrow> jsstring option" where
  "sanitizeUrl P v =
     (case v of
        JStr url0 \<Rightarrow>
          (let url1 = trim url0;
               url2 = (if \<not> startsWith url1 (ustr ''http://'') \<and> \<not> startsWith url1 (ustr ''https://'')
                       then ustr ''https://'' @ url1 else url1)
           in case parseURL P url2 of
                Some urlObj \<Rightarrow> Some (href urlObj)
              | None \<Rightarrow> None)
      | _ \<Rightarrow> None)"

definition validateUrl :: "platform \<Rightarrow> jsstring \<Rightarrow> bool" where
  "validateUrl P url =
     (case parseURL P url of
        None \<Rightarrow> False
      | Some urlObj \<Rightarrow>
          if protocol urlObj \<notin> set ALLOWED_PROTOCOLS then False
          else if list_ex (\<lambda>blocked. includes_str (toLowerCase (hostname urlObj)) blocked) BLOCKED_HOSTS
          then False
          else True)"

section \<open>Probe results and the network\<close>

datatype status = Healthy | Broken | Warning | Redirect | Error

text \<open>A property that may be missing from an object, hold \<open>null\<close>, or hold a value.\<close>

datatype 'a field = Absent | IsNull | Has 'a

record hop =
  hop_url :: jsstring
  hop_status :: nat
  hop_location :: jsstring

text \<open>The three captured headers; \<open>None\<close> is the \<open>null\<close> of \<open>headers.get\<close>.\<close>

record captured_headers =
  content_type :: "jsstring option"
  server :: "jsstring option"
  last_modified :: "jsstring option"

record probe_result =
  pr_url :: jsstring
  pr_status :: status
  pr_statusCode :: jsv
  pr_message :: jsstring
  pr_responseTime :: int
  pr_redirectChain :: "hop list field"
  pr_sslValid :: jsv
  pr_timestamp :: jsstring
  pr_headers :: "captured_headers option"
  pr_error :: jsv

text \<open>
  What \<open>fetch\<close> gives back: a response (its status, the URL finally reached, its
  headers), or a thrown error with the three properties the code reads.
\<close>

record response =
  resp_status :: nat
  resp_url :: jsstring
  resp_header :: "jsstring \<Rightarrow> jsstring option"

record js_error =
  err_code :: jsv
  err_name :: jsv
  err_message :: jsv

datatype outcome = Response response | Throws js_error

text \<open>
  The world one probe sees: the outcome of its own request, the wall-clock time
  \<open>Date.now() - startTime\<close> measured when that request settles, the outcome of the
  \<open>n\<close>-th request of the redirect tracer (as a function of the URL requested), and the
  \<open>toISOString\<close> time stamp. The request options (method, time-out, user agent, agent)
  only travel to the network, whose answer is arbitrary here, so they are not built.
\<close>

record env =
  main_fetch :: outcome
  elapsed :: int
  hop_fetch :: "nat \<Rightarrow> jsstring \<Rightarrow> outcome"
  now_iso :: jsstring

text \<open>
  The \<open>options\<close> argument: \<open>undefined\<close>, \<open>null\<close>, or an object whose four
  properties are read (a missing property reads as \<open>undefined\<close>).
\<close>

record options =
  timeout :: jsv
  followRedirects :: jsv
  checkSSL :: jsv
  userAgent :: jsv

datatype options_arg = OptUndefined | OptNull | OptObj options

datatype 'a settled = Fulfilled 'a | Rejected js_error

section \<open>getStatusMessage\<close>

function show_nat :: "nat \<Rightarrow> jsstring" where
  "show_nat n = (if n < 10 then [48 + n] else show_nat (n div 10) @ [48 + n mod 10])"
  by pat_completeness auto
termination
  by (relation "measure id") auto

declare show_nat.simps [simp del]

definition messages :: "(nat \<times> jsstring) list" where
  "messages =
     [(400, ustr ''Bad Request''),
      (401, ustr ''Unauthorized''),
      (403, ustr ''Forbidden''),
      (404, ustr ''Not Found''),
      (429, ustr ''Too Many Requests''),
      (500, ustr ''Internal Server Error''),
      (502, ustr ''Bad Gateway''),
      (503, ustr ''Service Unavailable''),
      (504, ustr ''Gateway Timeout'')]"

definition getStatusMessage :: "nat \<Rightarrow> jsstring" where
  "getStatusMessage statusCode =
     (case map_of messages statusCode of
        Some m \<Rightarrow> if m \<noteq> [] then m else ustr ''HTTP '' @ show_nat statusCode
      | None \<Rightarrow> ustr ''HTTP '' @ show_nat statusCode)"

section \<open>getRedirectChain\<close>

text \<open>
  The \<open>while (maxRedirects > 0)\<close> loop. \<open>n\<close> counts the requests made so far. The hop
  is pushed before \<open>new URL(location, currentUrl)\<close> is evaluated, so a location that
  does not resolve leaves the hop in the chain and ends the loop through the \<open>catch\<close>.
\<close>

fun redirect_loop ::
  "platform \<Rightarrow> (nat \<Rightarrow> jsstring \<Rightarrow> outcome) \<Rightarrow> nat \<Rightarrow> nat \<Rightarrow> jsstring \<Rightarrow> hop list \<Rightarrow> hop list"
where
  "redirect_loop P net n maxRedirects currentUrl chain =
     (if maxRedirects > 0 then
        (case net n currentUrl of
           Throws e \<Rightarrow> chain
         | Response r \<Rightarrow>
             if resp_status r \<ge> 300 \<and> resp_status r < 400 then
               (case resp_header r (ustr ''location'') of
                  None \<Rightarrow> chain
                | Some location \<Rightarrow>
                    if location \<noteq> [] then
                      (case resolveURL P location currentUrl of
                         None \<Rightarrow>
                           chain @ [\<lparr>hop_url = currentUrl, hop_status = resp_status r,
                                     hop_location = location\<rparr>]
                       | Some next_url \<Rightarrow>
                           redirect_loop P net (Suc n) (maxRedirects - 1) next_url
                             (chain @ [\<lparr>hop_url = currentUrl, hop_status = resp_status r,
                                        hop_location = location\<rparr>]))
                    else chain)
             else chain)
      else chain)"

declare redirect_loop.simps [simp del]

text \<open>
  With \<open>options\<close> \<open>null\<close> or \<open>undefined\<close> the read of \<open>options.userAgent\<close> throws
  inside the \<open>try\<close>, before any request, and the empty chain is returned as \<open>null\<close>.
\<close>

definition getRedirectChain ::
  "platform \<Rightarrow> (nat \<Rightarrow> jsstring \<Rightarrow> outcome) \<Rightarrow> options_arg \<Rightarrow> jsstring \<Rightarrow> hop list option"
where
  "getRedirectChain P net opts originalUrl =
     (let chain = (case opts of
                     OptObj _ \<Rightarrow> redirect_loop P net 0 5 originalUrl []
                   | _ \<Rightarrow> [])
      in if length chain > 0 then Some chain else None)"

section \<open>checkSingleLink\<close>

definition field_of_option :: "'a option \<Rightarrow> 'a field" where
  "field_of_option x = (case x of None \<Rightarrow> IsNull | Some v \<Rightarrow> Has v)"

definition checkSingleLink ::
  "platform \<Rightarrow> env \<Rightarrow> options_arg \<Rightarrow> jsstring \<Rightarrow> probe_result settled"
where
  "checkSingleLink P e opts url =
     (case opts of
        OptObj options \<Rightarrow>
          (case main_fetch e of
             Response response \<Rightarrow>
               (let responseTime = elapsed e;
                    (status, message) =
                      (if resp_status response \<ge> 400
                         then (Broken, getStatusMessage (resp_status response))
                       else if responseTime > 5000
                         then (Warning, ustr ''Slow Response'')
                       else if resp_status response \<ge> 300 \<and> resp_status response < 400
                         then (Redirect, ustr ''Redirect'')
                       else (Healthy, ustr ''OK''));
                    redirectChain =
                      (if followRedirects options \<noteq> JBool False \<and> resp_url response \<noteq> url
                       then getRedirectChain P (hop_fetch e) opts url
                       else None)
                in Fulfilled
                     \<lparr>pr_url = url,
                      pr_status = status,
                      pr_statusCode = JNum (int (resp_status response)),
                      pr_message = message,
                      pr_responseTime = responseTime,
                      pr_redirectChain = field_of_option redirectChain,
                      pr_sslValid =
                        (if startsWith url (ustr ''https:'') \<and> checkSSL options \<noteq> JBool False
                         then JBool True else JNull),
                      pr_timestamp = now_iso e,
                      pr_headers =
                        Some \<lparr>content_type = resp_header response (ustr ''content-type''),
                              server = resp_header response (ustr ''server''),
                              last_modified = resp_header response (ustr ''last-modified'')\<rparr>,
                      pr_error = JUndefined\<rparr>)
           | Throws error \<Rightarrow>
               (let responseTime = elapsed e;
                    status = Broken;
                    message =
                      (if err_code error = JStr (ustr ''ENOTFOUND'')
                         then ustr ''DNS Resolution Failed''
                       else if err_code error = JStr (ustr ''ECONNREFUSED'')
                         then ustr ''Connection Refused''
                       else if err_code error = JStr (ustr ''ETIMEDOUT'')
                               \<or> err_name error = JStr (ustr ''FetchError'')
                         then ustr ''Request Timeout''
                       else if err_code error = JStr (ustr ''CERT_HAS_EXPIRED'')
                         then ustr ''SSL Certificate Expired''
                       else ustr ''Connection Failed'')
                in Fulfilled
                     \<lparr>pr_url = url,
                      pr_status = status,
                      pr_statusCode =
                        (if truthy (err_code error) then err_code error else JStr (ustr ''ERROR'')),
                      pr_message = message,
                      pr_responseTime = responseTime,
                      pr_redirectChain = IsNull,
                      pr_sslValid = JNull,
                      pr_timestamp = now_iso e,
                      pr_headers = None,
                      pr_error = err_message error\<rparr>))
      | _ \<Rightarrow>
          Rejected \<lparr>err_code = JUndefined, err_name = JStr (ustr ''TypeError''),
                    err_message = JStr (null_deref_message P)\<rparr>)"

section \<open>processLinksWithConcurrency\<close>

text \<open>
  The loop \<open>for (let i = 0; i < links.length; i += maxConcurrency)\<close> pushing
  \<open>links.slice(i, i + maxConcurrency)\<close>.
\<close>

function make_batches :: "nat \<Rightarrow> 'a list \<Rightarrow> 'a list list" where
  "make_batches i links =
     (if i < length links
      then take maxConcurrency (drop i links) # make_batches (i + maxConcurrency) links
      else [])"
  by pat_completeness auto
termination
  by (relation "measure (\<lambda>(i, links). length links - i)") (auto simp: maxConcurrency_def)

declare make_batches.simps [simp del]

text \<open>
  What the scheduler does that can be seen from outside: it starts a probe for a URL (a
  call of \<open>checkSingleLink\<close>), or it waits for a number of milliseconds.
\<close>

datatype event = Probe jsstring | Delay nat

text \<open>Reading a run: the URLs probed, in the order the probes were started.\<close>

fun probes_of :: "event list \<Rightarrow> jsstring list" where
  "probes_of [] = []"
| "probes_of (Probe u # es) = u # probes_of es"
| "probes_of (Delay d # es) = probes_of es"

text \<open>
  The body of \<open>batchResults.forEach\<close>: the value of a fulfilled probe, or the
  substitute result for a rejected one.
\<close>

definition push_result :: "jsstring list \<Rightarrow> jsstring \<Rightarrow> nat \<Rightarrow> probe_result settled \<Rightarrow> probe_result" where
  "push_result batch stamp index result =
     (case result of
        Fulfilled v \<Rightarrow> v
      | Rejected reason \<Rightarrow>
          \<lparr>pr_url = batch ! index,
           pr_status = Error,
           pr_statusCode = JStr (ustr ''PROCESSING_ERROR''),
           pr_message = ustr ''Failed to process'',
           pr_responseTime = 0,
           pr_redirectChain = Absent,
           pr_sslValid = JUndefined,
           pr_timestamp = stamp,
           pr_headers = None,
           pr_error = (if truthy (err_message reason) then err_message reason
                       else JStr (ustr ''Unknown error''))\<rparr>)"

text \<open>
  The loop over the batches. \<open>k\<close> is the number of probes started before this batch; the
  probe started as number \<open>k\<close> of the whole run sees the world \<open>envs k\<close>. \<open>nbatches\<close>
  is \<open>batches.length\<close>. The probes of a batch are started in its order, all are
  awaited, their results are pushed in the batch's order, and the delay follows.
\<close>

fun run_batches ::
  "platform \<Rightarrow> (nat \<Rightarrow> env) \<Rightarrow> options_arg \<Rightarrow> nat \<Rightarrow> nat \<Rightarrow> jsstring list list
     \<Rightarrow> probe_result list \<times> event list"
where
  "run_batches P envs opts nbatches k [] = ([], [])"
| "run_batches P envs opts nbatches k (batch # rest) =
     (let batchResults =
            map (\<lambda>(index, url). checkSingleLink P (envs (k + index)) opts url)
                (enumerate 0 batch);
          pushed =
            map (\<lambda>(index, result). push_result batch (now_iso (envs (k + index))) index result)
                (enumerate 0 batchResults);
          pause = (if nbatches > 1 then [Delay 200] else []);
          (results, events) = run_batches P envs opts nbatches (k + length batch) rest
      in (pushed @ results, map Probe batch @ pause @ events))"

definition processLinksWithConcurrency ::
  "platform \<Rightarrow> (nat \<Rightarrow> env) \<Rightarrow> options_arg \<Rightarrow> jsstring list \<Rightarrow> probe_result list \<times> event list"
where
  "processLinksWithConcurrency P envs opts links =
     (let batches = make_batches 0 links
      in run_batches P envs opts (length batches) 0 batches)"

section \<open>generateSummary\<close>

text \<open>
  A numeric property of the summary object: missing (\<open>undefined\<close>), \<open>NaN\<close>, or an
  integer. \<open>x++\<close> on a missing property stores \<open>NaN\<close>.
\<close>

datatype jsnum = Undef | NaN | Num int

fun incr :: "jsnum \<Rightarrow> jsnum" where
  "incr Undef = NaN"
| "incr NaN = NaN"
| "incr (Num n) = Num (n + 1)"

text \<open>
  \<open>counts\<close> holds the properties that \<open>summary[result.status]++\<close> can reach:
  \<open>healthy\<close>, \<open>broken\<close>, \<open>warning\<close> and \<open>redirect\<close> start at 0, and the
  object literal has no property \<open>error\<close>.
\<close>

record summary =
  total :: nat
  counts :: "status \<Rightarrow> jsnum"
  averageResponseTime :: jsnum
  errors :: "(jsstring \<times> jsv) list"

definition initial_counts :: "status \<Rightarrow> jsnum" where
  "initial_counts st = (case st of Error \<Rightarrow> Undef | _ \<Rightarrow> Num 0)"

text \<open>One step of \<open>results.forEach\<close>, on the summary and the running \<open>totalResponseTime\<close>.\<close>

definition summary_step :: "summary \<times> int \<Rightarrow> probe_result \<Rightarrow> summary \<times> int" where
  "summary_step acc result =
     (case acc of (s, totalResponseTime) \<Rightarrow>
        (s\<lparr>counts := (counts s)(pr_status result := incr (counts s (pr_status result))),
           errors := (if truthy (pr_error result)
                      then errors s @ [(pr_url result, pr_error result)]
                      else errors s)\<rparr>,
         totalResponseTime + pr_responseTime result))"

text \<open>
  \<open>Math.round(t / n)\<close> for integers \<open>t\<close> and \<open>n\<close>: \<open>NaN\<close> for \<open>0 / 0\<close>, otherwise
  the nearest integer, a half rounded up.
\<close>

definition round_div :: "int \<Rightarrow> nat \<Rightarrow> jsnum" where
  "round_div t n = (if n = 0 then NaN else Num ((2 * t + int n) div (2 * int n)))"

definition generateSummary :: "probe_result list \<Rightarrow> summary" where
  "generateSummary results =
     (case foldl summary_step
             (\<lparr>total = length results, counts = initial_counts,
               averageResponseTime = Num 0, errors = []\<rparr>, 0) results
      of (s, totalResponseTime) \<Rightarrow>
        s\<lparr>averageResponseTime := round_div totalResponseTime (length results)\<rparr>)"

section \<open>handler\<close>

text \<open>
  The request after \<open>JSON.parse(event.body)\<close> and the destructuring of line 41: either
  that line throws (a body that is not JSON, or the JSON \<open>null\<close>), with the error's
  message, or it yields \<open>links\<close> (an array or anything else) and \<open>options\<close>.
\<close>

datatype links_field = NotArray | Arr "jsv list"

datatype parsed_body = ParseFailure jsstring | Parsed links_field options_arg

record request =
  httpMethod :: jsstring
  body :: parsed_body

datatype response_body =
    EmptyBody
  | ErrorBody jsstring
  | LimitBody jsstring jsstring
  | FaultBody jsstring jsstring
  | ReportBody "probe_result list" summary nat jsstring

record http_response =
  statusCode :: nat
  payload :: response_body

definition empty_options :: options where
  "empty_options =
     \<lparr>timeout = JUndefined, followRedirects = JUndefined, checkSSL = JUndefined,
      userAgent = JUndefined\<rparr>"

text \<open>
  The handler returns its response and the events of the run. \<open>stamp\<close> is the time stamp
  of the final response. The CORS headers, the same on every response, are left out.
\<close>

definition handler ::
  "platform \<Rightarrow> (nat \<Rightarrow> env) \<Rightarrow> jsstring \<Rightarrow> request \<Rightarrow> http_response \<times> event list"
where
  "handler P envs stamp ev =
     (if httpMethod ev = ustr ''OPTIONS'' then (\<lparr>statusCode = 200, payload = EmptyBody\<rparr>, [])
      else if httpMethod ev \<noteq> ustr ''POST''
        then (\<lparr>statusCode = 405, payload = ErrorBody (ustr ''Method not allowed'')\<rparr>, [])
      else
        (case body ev of
           ParseFailure msg \<Rightarrow>
             (\<lparr>statusCode = 500,
               payload = FaultBody (ustr ''Internal server error'')
                           (if development P then msg else ustr ''Processing failed'')\<rparr>, [])
         | Parsed lf oa \<Rightarrow>
             (let opts = (case oa of OptUndefined \<Rightarrow> OptObj empty_options | _ \<Rightarrow> oa)
              in case lf of
                   NotArray \<Rightarrow>
                     (\<lparr>statusCode = 400, payload = ErrorBody (ustr ''Invalid links array'')\<rparr>, [])
                 | Arr links \<Rightarrow>
                     if length links = 0
                       then (\<lparr>statusCode = 400,
                              payload = ErrorBody (ustr ''Invalid links array'')\<rparr>, [])
                     else if length links > maxLinksPerRequest
                       then (\<lparr>statusCode = 429,
                              payload = LimitBody
                                (ustr ''Maximum '' @ show_nat maxLinksPerRequest
                                   @ ustr '' links per request'')
                                (ustr ''Contact support for enterprise limits'')\<rparr>, [])
                     else
                       (let sanitizedLinks =
                              [link. Some link \<leftarrow> map (sanitizeUrl P) links,
                                     link \<noteq> [] \<and> validateUrl P link]
                        in if length sanitizedLinks = 0
                             then (\<lparr>statusCode = 400,
                                    payload = ErrorBody (ustr ''No valid URLs provided'')\<rparr>, [])
                           else
                             (case processLinksWithConcurrency P envs opts sanitizedLinks of
                                (results, events) \<Rightarrow>
                                  (\<lparr>statusCode = 200,
                                    payload = ReportBody results (generateSummary results)
                                                (length results) stamp\<rparr>, events))))))"

section \<open>Sample inputs\<close>

text \<open>
  Concrete inputs on which the theorems below are instantiated. \<open>sample_platform\<close>
  knows one site; \<open>redirecting_net\<close> answers every request with a 301 and a location;
  \<open>teapot_env\<close> is a slow response with a status outside the reason-phrase table;
  \<open>cert_expired_env\<close> is the failure node-fetch raises for an expired certificate (a
  \<open>FetchError\<close> carrying the system code); \<open>null_options_request\<close> is the body
  \<open>{"links": ["example.com"], "options": null}\<close>, and \<open>substitute_result\<close> the
  result the scheduler writes for its one link.
\<close>

definition example_url :: jsstring where
  "example_url = ustr ''https://example.com/''"

definition sample_platform :: platform where
  "sample_platform =
     \<lparr>parseURL = (\<lambda>s. if s = ustr ''https://example.com'' \<or> s = ustr ''https://example.com/''
                      then Some \<lparr>href = ustr ''https://example.com/'', protocol = ustr ''https:'',
                                 hostname = ustr ''example.com''\<rparr>
                      else None),
      resolveURL = (\<lambda>rel base. Some (ustr ''https://example.com/next'')),
      development = False,
      null_deref_message = ustr ''Cannot read properties of null''\<rparr>"

definition redirecting_net :: "nat \<Rightarrow> jsstring \<Rightarrow> outcome" where
  "redirecting_net n u =
     Response \<lparr>resp_status = 301, resp_url = u,
               resp_header = (\<lambda>h. if h = ustr ''location'' then Some (ustr ''/next'') else None)\<rparr>"

definition sample_stamp :: jsstring where
  "sample_stamp = ustr ''2024-01-01T00:00:00.000Z''"

definition teapot_env :: env where
  "teapot_env =
     \<lparr>main_fetch = Response \<lparr>resp_status = 418, resp_url = example_url, resp_header = (\<lambda>h. None)\<rparr>,
      elapsed = 9000,
      hop_fetch = redirecting_net,
      now_iso = sample_stamp\<rparr>"

definition cert_expired_env :: env where
  "cert_expired_env =
     \<lparr>main_fetch = Throws \<lparr>err_code = JStr (ustr ''CERT_HAS_EXPIRED''),
                            err_name = JStr (ustr ''FetchError''),
                            err_message = JStr (ustr ''certificate has expired'')\<rparr>,
      elapsed = 85,
      hop_fetch = redirecting_net,
      now_iso = sample_stamp\<rparr>"

definition substitute_result :: probe_result where
  "substitute_result =
     \<lparr>pr_url = example_url, pr_status = Error,
      pr_statusCode = JStr (ustr ''PROCESSING_ERROR''),
      pr_message = ustr ''Failed to process'', pr_responseTime = 0,
      pr_redirectChain = Absent, pr_sslValid = JUndefined, pr_timestamp = sample_stamp,
      pr_headers = None,
      pr_error = JStr (ustr ''Cannot read properties of null'')\<rparr>"

definition null_options_request :: request where
  "null_options_request =
     \<lparr>httpMethod = ustr ''POST'',
      body = Parsed (Arr [JStr (ustr ''example.com'')]) OptNull\<rparr>"

definition nine_links :: "jsstring list" where
  "nine_links = map (\<lambda>n. example_url @ show_nat n) [1..<10]"

section \<open>The batch scheduler keeps one slot per link\<close>

lemma concat_make_batches: "concat (make_batches i links) = drop i links"
proof (induction i links rule: make_batches.induct)
  case (1 i links)
  show ?case
  proof (cases "i < length links")
    case True
    have "concat (make_batches i links) = take maxConcurrency (drop i links) @ drop (i + maxConcurrency) links"
      using True 1 by (subst make_batches.simps) simp
    also have "\<dots> = drop i links"
      by (metis add.commute append_take_drop_id drop_drop)
    finally show ?thesis .
  next
    case False
    then show ?thesis by (subst make_batches.simps) simp
  qed
qed

lemma push_result_single:
  "index < length batch \<Longrightarrow> push_result batch stamp index r = push_result [batch ! index] stamp 0 r"
  by (simp add: push_result_def split: settled.splits)

lemma pushed_batch:
  "map (\<lambda>(index, result). push_result batch (now_iso (envs (k + index))) index result)
     (enumerate 0 (map (\<lambda>(index, url). checkSingleLink P (envs (k + index)) opts url) (enumerate 0 batch)))
   = map (\<lambda>j. push_result [batch ! j] (now_iso (envs (k + j))) 0 (checkSingleLink P (envs (k + j)) opts (batch ! j))) [0..<length batch]"
proof (rule nth_equalityI)
  show "length (map (\<lambda>(index, result). push_result batch (now_iso (envs (k + index))) index result)
     (enumerate 0 (map (\<lambda>(index, url). checkSingleLink P (envs (k + index)) opts url) (enumerate 0 batch))))
     = length (map (\<lambda>j. push_result [batch ! j] (now_iso (envs (k + j))) 0 (checkSingleLink P (envs (k + j)) opts (batch ! j))) [0..<length batch])"
    by simp
next
  fix i
  assume "i < length (map (\<lambda>(index, result). push_result batch (now_iso (envs (k + index))) index result)
     (enumerate 0 (map (\<lambda>(index, url). checkSingleLink P (envs (k + index)) opts url) (enumerate 0 batch))))"
  then have i: "i < length batch" by simp
  then show "map (\<lambda>(index, result). push_result batch (now_iso (envs (k + index))) index result)
     (enumerate 0 (map (\<lambda>(index, url). checkSingleLink P (envs (k + index)) opts url) (enumerate 0 batch))) ! i
     = map (\<lambda>j. push_result [batch ! j] (now_iso (envs (k + j))) 0 (checkSingleLink P (envs (k + j)) opts (batch ! j))) [0..<length batch] ! i"
    by (simp add: nth_enumerate_eq push_result_single [OF i])
qed

lemma run_batches_results:
  "fst (run_batches P envs opts nb k bs) =
     map (\<lambda>j. push_result [concat bs ! j] (now_iso (envs (k + j))) 0
                 (checkSingleLink P (envs (k + j)) opts (concat bs ! j)))
         [0..<length (concat bs)]"
proof (induction bs arbitrary: k)
  case Nil
  show ?case by simp
next
  case (Cons b bs)
  let ?f = "\<lambda>xs k j. push_result [xs ! j] (now_iso (envs (k + j))) 0 (checkSingleLink P (envs (k + j)) opts (xs ! j))"
  have split: "[0..<length (concat (b # bs))] = [0..<length b] @ map (\<lambda>j. j + length b) [0..<length (concat bs)]"
  proof -
    have "[0..<length (concat (b # bs))] = [0..<length b + length (concat bs)]" by simp
    also have "\<dots> = [0..<length b] @ [length b..<length b + length (concat bs)]"
      by (rule upt_add_eq_append) simp
    also have "[length b..<length b + length (concat bs)] = map (\<lambda>j. j + length b) [0..<length (concat bs)]"
      by (simp add: map_add_upt add.commute)
    finally show ?thesis .
  qed
  have "fst (run_batches P envs opts nb k (b # bs)) =
        map (?f b k) [0..<length b] @ fst (run_batches P envs opts nb (k + length b) bs)"
    using pushed_batch [of b envs k P opts] by (simp add: case_prod_unfold Let_def)
  also have "\<dots> = map (?f b k) [0..<length b] @ map (?f (concat bs) (k + length b)) [0..<length (concat bs)]"
    by (simp only: Cons.IH)
  also have "\<dots> = map (?f (concat (b # bs)) k) [0..<length (concat (b # bs))]"
    unfolding split by (simp add: nth_append add.assoc add.commute[of "length b"] o_def)
  finally show ?case .
qed

lemma run_batches_events:
  "snd (run_batches P envs opts nb k bs) =
     concat (map (\<lambda>b. map Probe b @ (if nb > 1 then [Delay 200] else [])) bs)"
  by (induction bs arbitrary: k) (simp_all add: case_prod_unfold Let_def)


lemma process_results:
  "fst (processLinksWithConcurrency P envs opts links) =
     map (\<lambda>j. push_result [links ! j] (now_iso (envs j)) 0
                 (checkSingleLink P (envs j) opts (links ! j)))
         [0..<length links]"
  by (simp add: processLinksWithConcurrency_def Let_def run_batches_results concat_make_batches)

lemma probes_of_append: "probes_of (xs @ ys) = probes_of xs @ probes_of ys"
  by (induction xs rule: probes_of.induct) simp_all

lemma probes_of_Probe: "probes_of (map Probe b) = b"
  by (induction b) simp_all

lemma probe_events:
  "probes_of (snd (processLinksWithConcurrency P envs opts links)) = links"
proof -
  have "probes_of (concat (map (\<lambda>b. map Probe b @ (if c then [Delay d] else [])) bs)) = concat bs"
    for c d and bs :: "jsstring list list"
    by (induction bs) (simp_all add: probes_of_append probes_of_Probe)
  then show ?thesis
    by (simp add: processLinksWithConcurrency_def Let_def run_batches_events concat_make_batches)
qed

lemma checkSingleLink_url:
  "checkSingleLink P e opts url = Fulfilled v \<Longrightarrow> pr_url v = url"
  by (auto simp: checkSingleLink_def Let_def case_prod_unfold
           split: options_arg.splits outcome.splits)

lemma push_result_url:
  "pr_url (push_result [u] stamp 0 (checkSingleLink P e opts u)) = u"
  by (cases "checkSingleLink P e opts u") (simp_all add: push_result_def checkSingleLink_url)

text \<open>
  Claim C2. For every list of links, the scheduler returns one result per link, in the
  order of the list: the list of result URLs is the input list, the result in slot \<open>j\<close>
  is what the probe started for link \<open>j\<close> settled to (whichever probe of its window
  finished first), and exactly one probe was started per link, in input order.
\<close>

theorem scheduler_one_result_per_url_in_order:
  "length (fst (processLinksWithConcurrency P envs opts links)) = length links
   \<and> map pr_url (fst (processLinksWithConcurrency P envs opts links)) = links
   \<and> fst (processLinksWithConcurrency P envs opts links) =
       map (\<lambda>j. push_result [links ! j] (now_iso (envs j)) 0
                   (checkSingleLink P (envs j) opts (links ! j)))
           [0..<length links]
   \<and> probes_of (snd (processLinksWithConcurrency P envs opts links)) = links"
proof -
  have "map pr_url (fst (processLinksWithConcurrency P envs opts links)) = links"
    by (rule nth_equalityI) (simp_all add: process_results push_result_url)
  then show ?thesis
    by (simp add: process_results probe_events)
qed

text \<open>The scheduler on nine links.\<close>

lemma length_nine_links: "length nine_links = 9"
  by (simp add: nine_links_def)

theorem scheduler_one_result_per_url_in_order_witness:
  "length (fst (processLinksWithConcurrency sample_platform (\<lambda>k. teapot_env) (OptObj empty_options) nine_links)) = 9
   \<and> map pr_url (fst (processLinksWithConcurrency sample_platform (\<lambda>k. teapot_env) (OptObj empty_options) nine_links)) = nine_links"
proof -
  note t = scheduler_one_result_per_url_in_order
             [of sample_platform "\<lambda>k. teapot_env" "OptObj empty_options" nine_links]
  from t [THEN conjunct1] t [THEN conjunct2, THEN conjunct1] show ?thesis
    by (simp only: length_nine_links)
qed

text \<open>
  Claim C6. When the probe for link \<open>j\<close> rejects, slot \<open>j\<close> of the output holds the
  substitute result: status \<open>error\<close>, status code \<open>PROCESSING_ERROR\<close>, the URL of
  link \<open>j\<close> and response time 0. The output still has one result per link, every probe
  that fulfilled keeps its own result in its own slot, and a probe was started for every
  link of every window.
\<close>

theorem rejected_probe_gets_processing_error_slot:
  assumes "j < length links"
      and "checkSingleLink P (envs j) opts (links ! j) = Rejected reason"
  shows "length (fst (processLinksWithConcurrency P envs opts links)) = length links
         \<and> pr_url (fst (processLinksWithConcurrency P envs opts links) ! j) = links ! j
         \<and> pr_status (fst (processLinksWithConcurrency P envs opts links) ! j) = Error
         \<and> pr_statusCode (fst (processLinksWithConcurrency P envs opts links) ! j)
             = JStr (ustr ''PROCESSING_ERROR'')
         \<and> pr_responseTime (fst (processLinksWithConcurrency P envs opts links) ! j) = 0
         \<and> (\<forall>i<length links. \<forall>v. checkSingleLink P (envs i) opts (links ! i) = Fulfilled v
                \<longrightarrow> fst (processLinksWithConcurrency P envs opts links) ! i = v)
         \<and> probes_of (snd (processLinksWithConcurrency P envs opts links)) = links"
  using assms by (simp add: process_results probe_events push_result_def)

text \<open>With \<open>options\<close> \<open>null\<close> every probe rejects; the ninth link is in the second window.\<close>

lemma sample_rejects:
  "checkSingleLink sample_platform teapot_env OptNull u
     = Rejected \<lparr>err_code = JUndefined, err_name = JStr (ustr ''TypeError''),
                 err_message = JStr (null_deref_message sample_platform)\<rparr>"
  by (simp add: checkSingleLink_def)

theorem rejected_probe_gets_processing_error_slot_witness:
  "(8::nat) < length nine_links
   \<and> pr_url (fst (processLinksWithConcurrency sample_platform (\<lambda>k. teapot_env) OptNull nine_links) ! 8)
       = nine_links ! 8
   \<and> pr_status (fst (processLinksWithConcurrency sample_platform (\<lambda>k. teapot_env) OptNull nine_links) ! 8)
       = Error
   \<and> length (fst (processLinksWithConcurrency sample_platform (\<lambda>k. teapot_env) OptNull nine_links)) = 9"
proof -
  have h: "(8::nat) < length nine_links" by (simp add: length_nine_links)
  show ?thesis
    using h rejected_probe_gets_processing_error_slot
              [where envs = "\<lambda>k. teapot_env" and P = sample_platform and opts = OptNull
                 and links = nine_links and j = 8, OF h sample_rejects]
    by (simp only: length_nine_links)
qed

subsection \<open>The pacing delay\<close>

lemma nine_links_explicit:
  "nine_links = map (\<lambda>n. example_url @ show_nat n) [1, 2, 3, 4, 5, 6, 7, 8, 9]"
proof -
  have "[1..<10] = [1, 2, 3, 4, 5, 6, 7, 8, 9::nat]" by code_simp
  then show ?thesis by (simp only: nine_links_def)
qed

lemma nine_batches:
  "make_batches 0 nine_links = [take 8 nine_links, drop 8 nine_links]"
proof -
  have "make_batches 0 nine_links = take 8 nine_links # make_batches 8 nine_links"
    by (subst make_batches.simps) (simp add: length_nine_links maxConcurrency_def)
  also have "make_batches 8 nine_links = drop 8 nine_links # make_batches 16 nine_links"
    by (subst make_batches.simps) (simp add: length_nine_links maxConcurrency_def)
  also have "make_batches 16 nine_links = []"
    by (subst make_batches.simps) (simp add: length_nine_links)
  finally show ?thesis .
qed

text \<open>
  Claim C5. The nine sample links fall into two windows. The run waits 200 ms after the
  first window and again after the second, the last one: the delay is issued inside the
  loop body, after every window, whenever there is more than one window.
\<close>

theorem delay_follows_last_window:
  "snd (processLinksWithConcurrency sample_platform (\<lambda>k. teapot_env) (OptObj empty_options) nine_links)
     = map Probe (take 8 nine_links) @ [Delay 200] @ map Probe (drop 8 nine_links) @ [Delay 200]
   \<and> length (make_batches 0 nine_links) = 2"
  by (simp add: processLinksWithConcurrency_def Let_def run_batches_events nine_batches)

text \<open>
  In general: the number of windows, a run of one window has no delay, and a run of
  several windows ends with a delay.
\<close>

lemma window_count_step:
  assumes "i < n"
  shows "Suc ((n - (i + 8) + 7) div 8) = (n - i + 7) div (8::nat)"
proof (cases "i + 8 \<le> n")
  case True
  then obtain m where m: "n = i + 8 + m"
    using le_Suc_ex by blast
  show ?thesis by (simp add: m)
next
  case False
  with assms have a: "n - (i + 8) = 0" and b: "8 \<le> n - i + 7" and c: "n - i + 7 < 16" by simp_all
  have "(n - i + 7) div 8 = 1"
    using b c by (simp add: div_nat_eqI)
  then show ?thesis by (simp add: a)
qed

lemma length_make_batches:
  "length (make_batches i links) = (length links - i + 7) div 8"
proof (induction i links rule: make_batches.induct)
  case (1 i links)
  show ?case
  proof (cases "i < length links")
    case True
    then have "length (make_batches i links) = Suc ((length links - (i + 8) + 7) div 8)"
      using 1 by (subst make_batches.simps) (simp add: maxConcurrency_def)
    also have "\<dots> = (length links - i + 7) div 8"
      using True by (rule window_count_step)
    finally show ?thesis .
  next
    case False
    then show ?thesis by (subst make_batches.simps) simp
  qed
qed

lemma single_window_no_delay:
  assumes "length links \<le> maxConcurrency"
  shows "snd (processLinksWithConcurrency P envs opts links) = map Probe links"
proof -
  have "\<not> 1 < length (make_batches 0 links)"
    using assms by (simp add: length_make_batches maxConcurrency_def)
  then have "snd (processLinksWithConcurrency P envs opts links)
               = concat (map (map Probe) (make_batches 0 links))"
    by (simp add: processLinksWithConcurrency_def Let_def run_batches_events)
  also have "\<dots> = map Probe (concat (make_batches 0 links))"
    by (simp add: map_concat)
  finally show ?thesis by (simp add: concat_make_batches)
qed

lemma several_windows_end_with_delay:
  assumes "maxConcurrency < length links"
  shows "\<exists>es. snd (processLinksWithConcurrency P envs opts links) = es @ [Delay 200]"
proof -
  have more: "1 < length (make_batches 0 links)"
    using assms by (simp add: length_make_batches maxConcurrency_def)
  then obtain bs b where bs: "make_batches 0 links = bs @ [b]"
    by (cases "make_batches 0 links" rule: rev_cases) auto
  have "snd (processLinksWithConcurrency P envs opts links)
          = concat (map (\<lambda>b. map Probe b @ [Delay 200]) (make_batches 0 links))"
    using more by (simp add: processLinksWithConcurrency_def Let_def run_batches_events)
  also have "\<dots> = (concat (map (\<lambda>b. map Probe b @ [Delay 200]) bs) @ map Probe b) @ [Delay 200]"
    by (simp add: bs)
  finally show ?thesis by blast
qed

section \<open>Classification of one probe\<close>

text \<open>
  Claim C3. When the request of a probe obtains a response, the probe fulfils with a
  result classified in this order, the first match winning: a status of 400 or more is
  \<open>broken\<close>, with the reason phrase of the fixed table or, for a code outside it,
  \<open>HTTP\<close> followed by the code in decimal; otherwise a response time above 5000 ms is
  \<open>warning\<close> with \<open>Slow Response\<close>; otherwise a status from 300 to 399 is
  \<open>redirect\<close>; otherwise the result is \<open>healthy\<close> with \<open>OK\<close>.
\<close>

theorem classification_precedence:
  assumes "main_fetch e = Response r"
  shows "\<exists>res. checkSingleLink P e (OptObj options) url = Fulfilled res
           \<and> pr_url res = url
           \<and> pr_statusCode res = JNum (int (resp_status r))
           \<and> (if resp_status r \<ge> 400 then
                  pr_status res = Broken
                  \<and> pr_message res =
                      (case map_of
                         [(400, ustr ''Bad Request''), (401, ustr ''Unauthorized''),
                          (403, ustr ''Forbidden''), (404, ustr ''Not Found''),
                          (429, ustr ''Too Many Requests''), (500, ustr ''Internal Server Error''),
                          (502, ustr ''Bad Gateway''), (503, ustr ''Service Unavailable''),
                          (504, ustr ''Gateway Timeout'')] (resp_status r)
                       of Some phrase \<Rightarrow> phrase
                        | None \<Rightarrow> ustr ''HTTP '' @ show_nat (resp_status r))
                else if elapsed e > 5000 then
                  pr_status res = Warning \<and> pr_message res = ustr ''Slow Response''
                else if 300 \<le> resp_status r \<and> resp_status r < 400 then
                  pr_status res = Redirect \<and> pr_message res = ustr ''Redirect''
                else
                  pr_status res = Healthy \<and> pr_message res = ustr ''OK'')"
  using assms
  by (simp add: checkSingleLink_def Let_def getStatusMessage_def messages_def ustr_def)

text \<open>A slow 418: \<open>broken\<close> wins over \<open>warning\<close>, and the phrase is the fallback.\<close>

lemma show_nat_418: "show_nat 418 = ustr ''418''"
  by (simp add: show_nat.simps ustr_def)

theorem classification_precedence_witness:
  "main_fetch teapot_env = Response \<lparr>resp_status = 418, resp_url = example_url, resp_header = (\<lambda>h. None)\<rparr>
   \<and> (\<exists>res. checkSingleLink sample_platform teapot_env (OptObj empty_options) example_url = Fulfilled res
          \<and> pr_status res = Broken \<and> pr_message res = ustr ''HTTP 418'')"
proof -
  have h: "main_fetch teapot_env
             = Response \<lparr>resp_status = 418, resp_url = example_url, resp_header = (\<lambda>h. None)\<rparr>"
    by (simp add: teapot_env_def)
  show ?thesis
    using h classification_precedence [OF h, of sample_platform empty_options example_url]
    by (simp add: show_nat_418) (auto simp: ustr_def)
qed

text \<open>
  Claim C10. Every result that \<open>checkSingleLink\<close> fulfils with has \<open>sslValid\<close>
  equal to \<open>true\<close> or to \<open>null\<close>; \<open>false\<close> is produced on no path, the failure
  path included.
\<close>

theorem sslValid_true_or_null:
  assumes "checkSingleLink P e opts url = Fulfilled res"
  shows "pr_sslValid res = JBool True \<or> pr_sslValid res = JNull"
  using assms
  by (auto simp: checkSingleLink_def Let_def case_prod_unfold
           split: options_arg.splits outcome.splits if_splits)

text \<open>
  Claim C4. A request that fails with the error node-fetch raises for an expired
  certificate (name \<open>FetchError\<close>, code \<open>CERT_HAS_EXPIRED\<close>) is reported with the
  message \<open>Request Timeout\<close>: the test \<open>error.name === 'FetchError'\<close> is reached
  before the test for the certificate code.
\<close>

theorem expired_certificate_reported_as_timeout:
  "checkSingleLink sample_platform cert_expired_env (OptObj empty_options) example_url
     = Fulfilled
         \<lparr>pr_url = example_url, pr_status = Broken,
          pr_statusCode = JStr (ustr ''CERT_HAS_EXPIRED''),
          pr_message = ustr ''Request Timeout'',
          pr_responseTime = 85, pr_redirectChain = IsNull, pr_sslValid = JNull,
          pr_timestamp = sample_stamp, pr_headers = None,
          pr_error = JStr (ustr ''certificate has expired'')\<rparr>"
  by (simp add: checkSingleLink_def cert_expired_env_def Let_def ustr_def)


text \<open>The message of every failed request, in the order the code tests.\<close>

lemma failure_messages:
  assumes "main_fetch e = Throws err"
  shows "\<exists>res. checkSingleLink P e (OptObj options) url = Fulfilled res
           \<and> pr_status res = Broken
           \<and> pr_message res =
               (if err_code err = JStr (ustr ''ENOTFOUND'') then ustr ''DNS Resolution Failed''
                else if err_code err = JStr (ustr ''ECONNREFUSED'') then ustr ''Connection Refused''
                else if err_code err = JStr (ustr ''ETIMEDOUT'') then ustr ''Request Timeout''
                else if err_name err = JStr (ustr ''FetchError'') then ustr ''Request Timeout''
                else if err_code err = JStr (ustr ''CERT_HAS_EXPIRED'') then ustr ''SSL Certificate Expired''
                else ustr ''Connection Failed'')"
  using assms by (simp add: checkSingleLink_def Let_def)

lemma teapot_result:
  "checkSingleLink sample_platform teapot_env (OptObj empty_options) example_url
     = Fulfilled
         \<lparr>pr_url = example_url, pr_status = Broken, pr_statusCode = JNum 418,
          pr_message = ustr ''HTTP 418'', pr_responseTime = 9000, pr_redirectChain = IsNull,
          pr_sslValid = JBool True, pr_timestamp = sample_stamp,
          pr_headers = Some \<lparr>content_type = None, server = None, last_modified = None\<rparr>,
          pr_error = JUndefined\<rparr>"
  by (simp add: checkSingleLink_def teapot_env_def Let_def getStatusMessage_def messages_def
        show_nat_418 empty_options_def field_of_option_def startsWith_def example_url_def)
     (simp add: ustr_def)

theorem sslValid_true_or_null_witness:
  "checkSingleLink sample_platform teapot_env (OptObj empty_options) example_url
     = Fulfilled
         \<lparr>pr_url = example_url, pr_status = Broken, pr_statusCode = JNum 418,
          pr_message = ustr ''HTTP 418'', pr_responseTime = 9000, pr_redirectChain = IsNull,
          pr_sslValid = JBool True, pr_timestamp = sample_stamp,
          pr_headers = Some \<lparr>content_type = None, server = None, last_modified = None\<rparr>,
          pr_error = JUndefined\<rparr>
   \<and> (pr_sslValid
         \<lparr>pr_url = example_url, pr_status = Broken, pr_statusCode = JNum 418,
          pr_message = ustr ''HTTP 418'', pr_responseTime = 9000, pr_redirectChain = IsNull,
          pr_sslValid = JBool True, pr_timestamp = sample_stamp,
          pr_headers = Some \<lparr>content_type = None, server = None, last_modified = None\<rparr>,
          pr_error = JUndefined\<rparr> = JBool True
        \<or> pr_sslValid
         \<lparr>pr_url = example_url, pr_status = Broken, pr_statusCode = JNum 418,
          pr_message = ustr ''HTTP 418'', pr_responseTime = 9000, pr_redirectChain = IsNull,
          pr_sslValid = JBool True, pr_timestamp = sample_stamp,
          pr_headers = Some \<lparr>content_type = None, server = None, last_modified = None\<rparr>,
          pr_error = JUndefined\<rparr> = JNull)"
  using teapot_result sslValid_true_or_null [OF teapot_result] by (rule conjI)

section \<open>The redirect tracer\<close>

lemma redirect_loop_length:
  "length (redirect_loop P net n m cur chain) \<le> length chain + m"
proof (induction P net n m cur chain rule: redirect_loop.induct)
  case (1 P net n maxRedirects currentUrl chain)
  show ?case
    apply (subst redirect_loop.simps)
    using 1
    apply (auto split: outcome.splits option.splits)
    done
qed

lemma redirect_loop_failure:
  "net n cur = Throws err \<Longrightarrow> redirect_loop P net n m cur chain = chain"
  by (subst redirect_loop.simps) simp

text \<open>
  Claim C9. \<open>getRedirectChain\<close> is a total function (its loop is defined with a proof
  of termination) whose value is \<open>null\<close> or a chain: it is never the empty chain, a
  chain has at most 5 hops, a failure of the first request gives \<open>null\<close>, and a failure
  of the request at any hop ends the loop with the hops collected so far.
\<close>

theorem redirect_chain_bounded_and_never_empty:
  "getRedirectChain P net opts url \<noteq> Some []
   \<and> (\<forall>chain. getRedirectChain P net opts url = Some chain \<longrightarrow> length chain \<le> 5)
   \<and> (\<forall>err. net 0 url = Throws err \<longrightarrow> getRedirectChain P net opts url = None)
   \<and> (\<forall>n m cur chain err. net n cur = Throws err \<longrightarrow> redirect_loop P net n m cur chain = chain)"
proof -
  have len: "length (redirect_loop P net 0 5 url []) \<le> 5"
    using redirect_loop_length [of P net 0 5 url "[]"] by simp
  have a: "getRedirectChain P net opts url \<noteq> Some []"
    by (simp add: getRedirectChain_def Let_def)
  have b: "\<forall>chain. getRedirectChain P net opts url = Some chain \<longrightarrow> length chain \<le> 5"
    using len by (auto simp: getRedirectChain_def Let_def split: options_arg.splits if_splits)
  have c: "\<forall>err. net 0 url = Throws err \<longrightarrow> getRedirectChain P net opts url = None"
    by (auto simp: getRedirectChain_def Let_def redirect_loop_failure split: options_arg.splits)
  have d: "\<forall>n m cur chain err. net n cur = Throws err \<longrightarrow> redirect_loop P net n m cur chain = chain"
    by (simp add: redirect_loop_failure)
  from a b c d show ?thesis by blast
qed


lemma five_hops:
  "getRedirectChain sample_platform redirecting_net (OptObj empty_options) example_url
     = Some [\<lparr>hop_url = example_url, hop_status = 301, hop_location = ustr ''/next''\<rparr>,
             \<lparr>hop_url = ustr ''https://example.com/next'', hop_status = 301, hop_location = ustr ''/next''\<rparr>,
             \<lparr>hop_url = ustr ''https://example.com/next'', hop_status = 301, hop_location = ustr ''/next''\<rparr>,
             \<lparr>hop_url = ustr ''https://example.com/next'', hop_status = 301, hop_location = ustr ''/next''\<rparr>,
             \<lparr>hop_url = ustr ''https://example.com/next'', hop_status = 301, hop_location = ustr ''/next''\<rparr>]"
  by (simp add: getRedirectChain_def Let_def redirect_loop.simps redirecting_net_def
        sample_platform_def ustr_def)

theorem redirect_chain_bounded_and_never_empty_witness:
  "(\<exists>chain. getRedirectChain sample_platform redirecting_net (OptObj empty_options) example_url
              = Some chain \<and> length chain = 5)
   \<and> getRedirectChain sample_platform redirecting_net (OptObj empty_options) example_url \<noteq> Some []
   \<and> getRedirectChain sample_platform (\<lambda>n u. Throws \<lparr>err_code = JUndefined, err_name = JUndefined, err_message = JUndefined\<rparr>)
         (OptObj empty_options) example_url = None"
  using redirect_chain_bounded_and_never_empty
          [of sample_platform redirecting_net "OptObj empty_options" example_url]
        redirect_chain_bounded_and_never_empty
          [of sample_platform "\<lambda>n u. Throws \<lparr>err_code = JUndefined, err_name = JUndefined, err_message = JUndefined\<rparr>"
              "OptObj empty_options" example_url]
        five_hops
  by simp


section \<open>Sanitization\<close>

lemma startsWith_append: "startsWith (p @ s) p"
  by (simp add: startsWith_def)

text \<open>
  Claim C8. \<open>sanitizeUrl\<close> is idempotent on its outputs: if it returns \<open>h\<close> for some
  input, it returns \<open>h\<close> for \<open>h\<close>. The platform's URL class is a parameter, and three
  properties of the URL Standard's serializer are assumed of it: the \<open>href\<close> of a parsed
  URL parses again to the same \<open>href\<close>, it has no white space at either end, and for an
  input that starts with \<open>http://\<close> or \<open>https://\<close> it starts with one of the two.
\<close>

theorem sanitizeUrl_idempotent:
  assumes reparse: "\<And>s u. parseURL P s = Some u
                      \<Longrightarrow> \<exists>u'. parseURL P (href u) = Some u' \<and> href u' = href u"
      and trimmed: "\<And>s u. parseURL P s = Some u \<Longrightarrow> trim (href u) = href u"
      and scheme: "\<And>s u. parseURL P s = Some u
                      \<Longrightarrow> startsWith s (ustr ''http://'') \<or> startsWith s (ustr ''https://'')
                      \<Longrightarrow> startsWith (href u) (ustr ''http://'') \<or> startsWith (href u) (ustr ''https://'')"
      and out: "sanitizeUrl P v = Some h"
  shows "sanitizeUrl P (JStr h) = Some h"
proof -
  from out obtain url0 where v: "v = JStr url0"
    by (cases v) (simp_all add: sanitizeUrl_def)
  define url2 where
    "url2 = (if \<not> startsWith (trim url0) (ustr ''http://'') \<and> \<not> startsWith (trim url0) (ustr ''https://'')
             then ustr ''https://'' @ trim url0 else trim url0)"
  from out v obtain u where u: "parseURL P url2 = Some u" and h: "h = href u"
    by (auto simp: sanitizeUrl_def Let_def url2_def split: option.splits)
  have pre: "startsWith url2 (ustr ''http://'') \<or> startsWith url2 (ustr ''https://'')"
    by (simp add: url2_def startsWith_append)
  have h_pre: "startsWith h (ustr ''http://'') \<or> startsWith h (ustr ''https://'')"
    using scheme [OF u pre] h by simp
  have h_trim: "trim h = h"
    using trimmed [OF u] h by simp
  from reparse [OF u] h obtain u' where u': "parseURL P h = Some u'" and h': "href u' = h"
    by auto
  have "sanitizeUrl P (JStr h) = (case parseURL P h of Some urlObj \<Rightarrow> Some (href urlObj) | None \<Rightarrow> None)"
    using h_pre by (auto simp: sanitizeUrl_def Let_def h_trim)
  then show ?thesis by (simp add: u' h')
qed

lemma sample_parse:
  "parseURL sample_platform s = Some u \<Longrightarrow> href u = example_url"
  by (auto simp: sample_platform_def example_url_def split: if_splits)

lemma sample_parse_href: "parseURL sample_platform example_url
    = Some \<lparr>href = example_url, protocol = ustr ''https:'', hostname = ustr ''example.com''\<rparr>"
  by (simp add: sample_platform_def example_url_def)

lemma trim_example_url: "trim example_url = example_url"
  by (simp add: trim_def example_url_def ustr_def is_ws_def)

lemma example_url_scheme: "startsWith example_url (ustr ''https://'')"
  by (simp add: startsWith_def example_url_def ustr_def)

lemma sanitize_bare_host:
  "sanitizeUrl sample_platform (JStr (ustr '' example.com '')) = Some example_url"
  by (simp add: sanitizeUrl_def sample_platform_def trim_def is_ws_def startsWith_def
        example_url_def ustr_def)

theorem sanitizeUrl_idempotent_witness:
  "sanitizeUrl sample_platform (JStr (ustr '' example.com '')) = Some example_url
   \<and> sanitizeUrl sample_platform (JStr example_url) = Some example_url"
proof -
  have r: "\<And>s u. parseURL sample_platform s = Some u
             \<Longrightarrow> \<exists>u'. parseURL sample_platform (href u) = Some u' \<and> href u' = href u"
    using sample_parse sample_parse_href by fastforce
  have t: "\<And>s u. parseURL sample_platform s = Some u \<Longrightarrow> trim (href u) = href u"
    using sample_parse trim_example_url by simp
  have c: "\<And>s u. parseURL sample_platform s = Some u
             \<Longrightarrow> startsWith s (ustr ''http://'') \<or> startsWith s (ustr ''https://'')
             \<Longrightarrow> startsWith (href u) (ustr ''http://'') \<or> startsWith (href u) (ustr ''https://'')"
    using sample_parse example_url_scheme by simp
  show ?thesis
    using sanitize_bare_host sanitizeUrl_idempotent [OF r t c sanitize_bare_host]
    by simp
qed


section \<open>The handler rejects before any probe\<close>

lemma show_nat_50: "show_nat 50 = ustr ''50''"
  by (simp add: show_nat.simps ustr_def)

lemma no_survivors:
  assumes "\<forall>l\<in>set links. \<forall>u. sanitizeUrl P l = Some u \<longrightarrow> u = [] \<or> \<not> validateUrl P u"
  shows "[link. Some link \<leftarrow> map (sanitizeUrl P) links, link \<noteq> [] \<and> validateUrl P link] = []"
  using assms by (induction links) (auto split: option.splits)

text \<open>
  Claim C7. For a POST request, the handler answers with an error and starts no probe
  (the run has no event, and no result is produced) when the body cannot be decoded, when
  \<open>links\<close> is not an array or is empty (400), when there are more than 50 links (429,
  whatever the links are), and when no link survives sanitization and validation (400).
\<close>

theorem handler_rejects_before_probing:
  assumes "httpMethod ev = ustr ''POST''"
  shows "(\<forall>msg. body ev = ParseFailure msg \<longrightarrow>
            handler P envs stamp ev =
              (\<lparr>statusCode = 500,
                payload = FaultBody (ustr ''Internal server error'')
                            (if development P then msg else ustr ''Processing failed'')\<rparr>, []))
       \<and> (\<forall>oa. body ev = Parsed NotArray oa \<or> body ev = Parsed (Arr []) oa \<longrightarrow>
            handler P envs stamp ev =
              (\<lparr>statusCode = 400, payload = ErrorBody (ustr ''Invalid links array'')\<rparr>, []))
       \<and> (\<forall>links oa. body ev = Parsed (Arr links) oa \<and> length links > 50 \<longrightarrow>
            handler P envs stamp ev =
              (\<lparr>statusCode = 429,
                payload = LimitBody (ustr ''Maximum 50 links per request'')
                            (ustr ''Contact support for enterprise limits'')\<rparr>, []))
       \<and> (\<forall>links oa. body ev = Parsed (Arr links) oa \<and> links \<noteq> [] \<and> length links \<le> 50
              \<and> (\<forall>l\<in>set links. \<forall>u. sanitizeUrl P l = Some u \<longrightarrow> u = [] \<or> \<not> validateUrl P u) \<longrightarrow>
            handler P envs stamp ev =
              (\<lparr>statusCode = 400, payload = ErrorBody (ustr ''No valid URLs provided'')\<rparr>, []))"
proof -
  have post: "httpMethod ev \<noteq> ustr ''OPTIONS''"
    using assms by (simp add: ustr_def)
  have a: "\<forall>msg. body ev = ParseFailure msg \<longrightarrow>
            handler P envs stamp ev =
              (\<lparr>statusCode = 500,
                payload = FaultBody (ustr ''Internal server error'')
                            (if development P then msg else ustr ''Processing failed'')\<rparr>, [])"
    using assms post by (simp add: handler_def)
  have b: "\<forall>oa. body ev = Parsed NotArray oa \<or> body ev = Parsed (Arr []) oa \<longrightarrow>
            handler P envs stamp ev =
              (\<lparr>statusCode = 400, payload = ErrorBody (ustr ''Invalid links array'')\<rparr>, [])"
    using assms post by (auto simp: handler_def Let_def)
  have msg: "ustr ''Maximum '' @ show_nat maxLinksPerRequest @ ustr '' links per request''
               = ustr ''Maximum 50 links per request''"
    by (simp add: maxLinksPerRequest_def show_nat_50) (simp add: ustr_def)
  have c: "\<forall>links oa. body ev = Parsed (Arr links) oa \<and> length links > 50 \<longrightarrow>
            handler P envs stamp ev =
              (\<lparr>statusCode = 429,
                payload = LimitBody (ustr ''Maximum 50 links per request'')
                            (ustr ''Contact support for enterprise limits'')\<rparr>, [])"
    using assms post by (auto simp: handler_def Let_def msg) (simp_all add: maxLinksPerRequest_def)
  have d: "\<forall>links oa. body ev = Parsed (Arr links) oa \<and> links \<noteq> [] \<and> length links \<le> 50
              \<and> (\<forall>l\<in>set links. \<forall>u. sanitizeUrl P l = Some u \<longrightarrow> u = [] \<or> \<not> validateUrl P u) \<longrightarrow>
            handler P envs stamp ev =
              (\<lparr>statusCode = 400, payload = ErrorBody (ustr ''No valid URLs provided'')\<rparr>, [])"
  proof (intro allI impI)
    fix links oa
    assume h: "body ev = Parsed (Arr links) oa \<and> links \<noteq> [] \<and> length links \<le> 50
              \<and> (\<forall>l\<in>set links. \<forall>u. sanitizeUrl P l = Some u \<longrightarrow> u = [] \<or> \<not> validateUrl P u)"
    then have none: "[link. Some link \<leftarrow> map (sanitizeUrl P) links, link \<noteq> [] \<and> validateUrl P link] = []"
      using no_survivors [of links P] by blast
    show "handler P envs stamp ev =
              (\<lparr>statusCode = 400, payload = ErrorBody (ustr ''No valid URLs provided'')\<rparr>, [])"
      using assms post h
      by (simp add: handler_def Let_def maxLinksPerRequest_def none del: map_map concat_map_singleton)
  qed
  from a b c d show ?thesis by blast
qed


theorem handler_rejects_before_probing_witness:
  "httpMethod \<lparr>httpMethod = ustr ''POST'',
               body = Parsed (Arr (replicate 60 (JStr example_url))) OptUndefined\<rparr> = ustr ''POST''
   \<and> handler sample_platform (\<lambda>k. teapot_env) sample_stamp
         \<lparr>httpMethod = ustr ''POST'',
          body = Parsed (Arr (replicate 60 (JStr example_url))) OptUndefined\<rparr>
       = (\<lparr>statusCode = 429,
           payload = LimitBody (ustr ''Maximum 50 links per request'')
                       (ustr ''Contact support for enterprise limits'')\<rparr>, [])"
proof -
  have h: "httpMethod \<lparr>httpMethod = ustr ''POST'',
               body = Parsed (Arr (replicate 60 (JStr example_url))) OptUndefined\<rparr> = ustr ''POST''"
    by simp
  show ?thesis
    using h handler_rejects_before_probing
              [OF h, of sample_platform "\<lambda>k. teapot_env" sample_stamp]
    by simp
qed

section \<open>The summary\<close>

lemma null_options_results:
  "fst (processLinksWithConcurrency sample_platform (\<lambda>k. teapot_env) OptNull [example_url])
     = [substitute_result]"
  by (simp add: process_results sample_rejects push_result_def substitute_result_def)
     (simp add: sample_platform_def teapot_env_def ustr_def)

lemma null_options_events:
  "snd (processLinksWithConcurrency sample_platform (\<lambda>k. teapot_env) OptNull [example_url])
     = [Probe example_url]"
  by (rule single_window_no_delay [where links = "[example_url]", simplified])
     (simp add: maxConcurrency_def)

lemma example_url_valid: "validateUrl sample_platform example_url"
  by (simp add: validateUrl_def sample_platform_def example_url_def ALLOWED_PROTOCOLS_def
        BLOCKED_HOSTS_def toLowerCase_def startsWith_def ustr_def)

lemma sanitize_example: "sanitizeUrl sample_platform (JStr (ustr ''example.com'')) = Some example_url"
  by (simp add: sanitizeUrl_def sample_platform_def trim_def is_ws_def startsWith_def
        example_url_def ustr_def)

text \<open>
  Claim C1. The request \<open>{"links": ["example.com"], "options": null}\<close> is accepted;
  its one probe rejects and the scheduler substitutes a result of status \<open>error\<close>. The
  summary of the report has \<open>total\<close> 1, the four counters of the object literal stay 0,
  and \<open>summary.error\<close>, which the literal does not define, becomes \<open>NaN\<close>: the
  counters do not sum to the total.
\<close>

theorem error_status_breaks_the_tally:
  "handler sample_platform (\<lambda>k. teapot_env) sample_stamp null_options_request
     = (\<lparr>statusCode = 200,
         payload = ReportBody [substitute_result] (generateSummary [substitute_result]) 1
                     sample_stamp\<rparr>,
        [Probe example_url])
   \<and> pr_status substitute_result = Error
   \<and> total (generateSummary [substitute_result]) = 1
   \<and> map (counts (generateSummary [substitute_result]))
         [Healthy, Broken, Warning, Redirect, Error]
       = [Num 0, Num 0, Num 0, Num 0, NaN]"
proof -
  have run: "processLinksWithConcurrency sample_platform (\<lambda>k. teapot_env) OptNull [example_url]
               = ([substitute_result], [Probe example_url])"
    using null_options_results null_options_events by (simp add: prod_eq_iff)
  have "handler sample_platform (\<lambda>k. teapot_env) sample_stamp null_options_request
     = (\<lparr>statusCode = 200,
         payload = ReportBody [substitute_result] (generateSummary [substitute_result]) 1
                     sample_stamp\<rparr>,
        [Probe example_url])"
    by (simp add: handler_def null_options_request_def maxLinksPerRequest_def Let_def
          sanitize_example example_url_valid run)
       (simp add: example_url_def ustr_def)
  moreover have "pr_status substitute_result = Error"
    by (simp add: substitute_result_def)
  moreover have "total (generateSummary [substitute_result]) = 1"
    by (simp add: generateSummary_def summary_step_def)
  moreover have "map (counts (generateSummary [substitute_result]))
         [Healthy, Broken, Warning, Redirect, Error]
       = [Num 0, Num 0, Num 0, Num 0, NaN]"
    by (simp add: generateSummary_def summary_step_def initial_counts_def substitute_result_def)
  ultimately show ?thesis by blast
qed

text \<open>
  In general: each of the four counters of the literal counts the results of its status,
  \<open>total\<close> is the number of results, and \<open>summary.error\<close> is missing when no result
  has status \<open>error\<close> and \<open>NaN\<close> as soon as one has.
\<close>

lemma incr_pow_Num: "(incr ^^ n) (Num k) = Num (k + int n)"
  by (induction n) simp_all

lemma incr_pow_NaN: "(incr ^^ n) NaN = NaN"
  by (induction n) simp_all

lemma incr_pow_Undef: "(incr ^^ n) Undef = (if n = 0 then Undef else NaN)"
  by (induction n) simp_all

lemma foldl_summary_counts:
  "counts (fst (foldl summary_step (s, t) rs)) st
     = (incr ^^ length (filter (\<lambda>r. pr_status r = st) rs)) (counts s st)"
proof (induction rs arbitrary: s t)
  case Nil
  show ?case by simp
next
  case (Cons r rs)
  obtain s' t' where step: "summary_step (s, t) r = (s', t')"
    by (cases "summary_step (s, t) r")
  have c: "counts s' st = (if pr_status r = st then incr (counts s st) else counts s st)"
    using step by (auto simp: summary_step_def)
  show ?case
  proof (cases "pr_status r = st")
    case True
    then show ?thesis
      using Cons.IH [of s' t'] by (simp add: step c funpow_Suc_right del: funpow.simps)
  next
    case False
    then show ?thesis
      using Cons.IH [of s' t'] by (simp add: step c)
  qed
qed

lemma foldl_summary_total:
  "total (fst (foldl summary_step (s, t) rs)) = total s"
proof (induction rs arbitrary: s t)
  case Nil
  show ?case by simp
next
  case (Cons r rs)
  obtain s' t' where step: "summary_step (s, t) r = (s', t')"
    by (cases "summary_step (s, t) r")
  have "total s' = total s"
    using step by (auto simp: summary_step_def)
  then show ?case
    using Cons.IH [of s' t'] by (simp add: step)
qed

lemma summary_total: "total (generateSummary rs) = length rs"
  using foldl_summary_total [of _ 0 rs]
  by (simp add: generateSummary_def case_prod_unfold)

lemma summary_counts:
  "counts (generateSummary rs) st =
     (if st = Error
      then (if \<exists>r\<in>set rs. pr_status r = Error then NaN else Undef)
      else Num (int (length (filter (\<lambda>r. pr_status r = st) rs))))"
  using foldl_summary_counts [of _ 0 rs st]
  by (cases st)
     (auto simp: generateSummary_def case_prod_unfold initial_counts_def incr_pow_Num
        incr_pow_Undef filter_empty_conv)

lemma status_partition:
  "length (filter (\<lambda>r. pr_status r = Healthy) rs) + length (filter (\<lambda>r. pr_status r = Broken) rs)
     + length (filter (\<lambda>r. pr_status r = Warning) rs) + length (filter (\<lambda>r. pr_status r = Redirect) rs)
     + length (filter (\<lambda>r. pr_status r = Error) rs) = length rs"
proof (induction rs)
  case Nil
  show ?case by simp
next
  case (Cons r rs)
  then show ?case by (cases "pr_status r") simp_all
qed


lemma tally_without_error:
  assumes "\<forall>r\<in>set rs. pr_status r \<noteq> Error"
  shows "\<exists>h b w d.
           counts (generateSummary rs) Healthy = Num h \<and> counts (generateSummary rs) Broken = Num b
           \<and> counts (generateSummary rs) Warning = Num w \<and> counts (generateSummary rs) Redirect = Num d
           \<and> counts (generateSummary rs) Error = Undef
           \<and> h + b + w + d = int (total (generateSummary rs))"
proof -
  have "filter (\<lambda>r. pr_status r = Error) rs = []"
    using assms by (simp add: filter_empty_conv)
  then have "length (filter (\<lambda>r. pr_status r = Healthy) rs) + length (filter (\<lambda>r. pr_status r = Broken) rs)
     + length (filter (\<lambda>r. pr_status r = Warning) rs) + length (filter (\<lambda>r. pr_status r = Redirect) rs)
     = length rs"
    using status_partition [of rs] by simp
  then have "int (length (filter (\<lambda>r. pr_status r = Healthy) rs)) + int (length (filter (\<lambda>r. pr_status r = Broken) rs))
     + int (length (filter (\<lambda>r. pr_status r = Warning) rs)) + int (length (filter (\<lambda>r. pr_status r = Redirect) rs))
     = int (length rs)"
    by (metis of_nat_add)
  then show ?thesis
    using assms by (simp add: summary_counts summary_total)
qed

lemma tally_with_error:
  assumes "r \<in> set rs" and "pr_status r = Error"
  shows "counts (generateSummary rs) Error = NaN"
  using assms by (auto simp: summary_counts)

end
